theory Spec2Isabelle
  imports Complex_Main
begin

section \<open>The chat-assistant function: FAQ matching and response routing\<close>

text \<open>
  The development embeds the serverless function \<^verbatim>\<open>chat-assistant\<close> (the three-signal
  version with threshold 0.3): \<^verbatim>\<open>findBestMatch\<close>, \<^verbatim>\<open>calculateSimilarity\<close>,
  \<^verbatim>\<open>calculateKeywordMatch\<close>, \<^verbatim>\<open>areSimilarWords\<close>, \<^verbatim>\<open>calculateSemanticSimilarity\<close>,
  \<^verbatim>\<open>findRelatedItems\<close>, \<^verbatim>\<open>detectIntent\<close>, \<^verbatim>\<open>callGeminiAPI\<close>,
  \<^verbatim>\<open>generateSuggestedQuestions\<close> and the request handler passed to \<^verbatim>\<open>serve\<close>.

  Conventions of the model.
  \<^item> Strings are lists of 8-bit characters and stand for ASCII text: \<^verbatim>\<open>toLowerCase\<close> maps
    \<^verbatim>\<open>A-Z\<close> to \<^verbatim>\<open>a-z\<close> and the class \<^verbatim>\<open>\s\<close> is tab, line feed, vertical tab, form feed,
    carriage return and space.
  \<^item> JavaScript numbers are real numbers extended by \<^verbatim>\<open>NaN\<close> and the two infinities, so
    that \<^verbatim>\<open>0/0\<close> and \<^verbatim>\<open>x/0\<close> are what JavaScript makes of them. Finite values
    are exact where the code rounds to doubles: a product such as \<open>0.375 * 0.8\<close> is
    exactly \<open>3 / 10\<close> here and \<^verbatim>\<open>0.30000000000000004\<close> in the code, so at a tie
    between two scores, or between a score and the threshold, the code can decide the
    other way. The sample inputs below do not depend on it.
  \<^item> \<^verbatim>\<open>undefined\<close> and \<^verbatim>\<open>null\<close> are \<open>None\<close>.
\<close>

subsection \<open>JavaScript numbers\<close>

datatype jsnum = Num real | PosInf | NegInf | NaN

text \<open>Division of two finite numbers, the divisor being a count (so a zero divisor is \<open>+0\<close>).\<close>

definition js_div :: "real \<Rightarrow> real \<Rightarrow> jsnum" where
  "js_div a b =
     (if b = 0 then (if a = 0 then NaN else if 0 < a then PosInf else NegInf)
      else Num (a / b))"

text \<open>The comparison \<^verbatim>\<open>a > b\<close>: false as soon as one side is \<^verbatim>\<open>NaN\<close>.\<close>

fun js_gt :: "jsnum \<Rightarrow> jsnum \<Rightarrow> bool" where
  "js_gt NaN _ = False"
| "js_gt _ NaN = False"
| "js_gt (Num a) (Num b) = (b < a)"
| "js_gt PosInf PosInf = False"
| "js_gt PosInf _ = True"
| "js_gt _ PosInf = False"
| "js_gt NegInf _ = False"
| "js_gt (Num a) NegInf = True"

text \<open>\<^verbatim>\<open>Math.min\<close> and \<^verbatim>\<open>Math.max\<close> of two arguments: \<^verbatim>\<open>NaN\<close> if either is.\<close>

fun Math_min :: "jsnum \<Rightarrow> jsnum \<Rightarrow> jsnum" where
  "Math_min NaN _ = NaN"
| "Math_min _ NaN = NaN"
| "Math_min a b = (if js_gt a b then b else a)"

fun Math_max :: "jsnum \<Rightarrow> jsnum \<Rightarrow> jsnum" where
  "Math_max NaN _ = NaN"
| "Math_max _ NaN = NaN"
| "Math_max a b = (if js_gt b a then b else a)"

text \<open>\<^verbatim>\<open>Math.max(a, b, c)\<close>.\<close>

definition Math_max3 :: "jsnum \<Rightarrow> jsnum \<Rightarrow> jsnum \<Rightarrow> jsnum" where
  "Math_max3 a b c = Math_max (Math_max a b) c"

text \<open>The product \<^verbatim>\<open>x * k\<close> with a positive finite constant \<open>k\<close>.\<close>

fun js_times_pos :: "jsnum \<Rightarrow> real \<Rightarrow> jsnum" where
  "js_times_pos (Num a) k = Num (a * k)"
| "js_times_pos x k = x"

subsection \<open>Strings\<close>

definition toLowerCase_char :: "char \<Rightarrow> char" where
  "toLowerCase_char c =
     (case map_of (zip ''ABCDEFGHIJKLMNOPQRSTUVWXYZ'' ''abcdefghijklmnopqrstuvwxyz'') c of
        None \<Rightarrow> c
      | Some l \<Rightarrow> l)"

definition toLowerCase :: "string \<Rightarrow> string" where
  "toLowerCase s = map toLowerCase_char s"

definition is_space :: "char \<Rightarrow> bool" where
  "is_space c = (c \<in> set [CHR 0x09, CHR 0x0A, CHR 0x0B, CHR 0x0C, CHR 0x0D, CHR '' ''])"

text \<open>
  \<^verbatim>\<open>s.split(/\s+/)\<close>: the pieces of \<open>s\<close> between the maximal runs of white space, the
  (possibly empty) pieces before the first run and after the last one included, so that
  the empty string gives one empty piece. The function returns the first piece and the
  list of the others.
\<close>

fun split_ws_parts :: "string \<Rightarrow> string \<times> string list" where
  "split_ws_parts [] = ([], [])"
| "split_ws_parts (c # cs) =
     (case split_ws_parts cs of (w, ws) \<Rightarrow>
        if is_space c then
          (case cs of
             [] \<Rightarrow> ([], w # ws)
           | d # _ \<Rightarrow> if is_space d then (w, ws) else ([], w # ws))
        else (c # w, ws))"

definition split_ws :: "string \<Rightarrow> string list" where
  "split_ws s = (case split_ws_parts s of (w, ws) \<Rightarrow> w # ws)"

text \<open>\<^verbatim>\<open>s.split(' ')\<close>: a cut at every single space.\<close>

fun split_space_parts :: "string \<Rightarrow> string \<times> string list" where
  "split_space_parts [] = ([], [])"
| "split_space_parts (c # cs) =
     (case split_space_parts cs of (w, ws) \<Rightarrow>
        if c = CHR '' '' then ([], w # ws) else (c # w, ws))"

definition split_space :: "string \<Rightarrow> string list" where
  "split_space s = (case split_space_parts s of (w, ws) \<Rightarrow> w # ws)"

text \<open>\<^verbatim>\<open>s.startsWith(t)\<close> and \<^verbatim>\<open>s.includes(t)\<close> on strings.\<close>

fun startsWith :: "string \<Rightarrow> string \<Rightarrow> bool" where
  "startsWith s [] = True"
| "startsWith [] (c # cs) = False"
| "startsWith (x # xs) (c # cs) = (x = c \<and> startsWith xs cs)"

fun str_includes :: "string \<Rightarrow> string \<Rightarrow> bool" where
  "str_includes [] t = (t = [])"
| "str_includes (x # xs) t = (startsWith (x # xs) t \<or> str_includes xs t)"

subsection \<open>Data\<close>

text \<open>
  A row of \<^verbatim>\<open>qa_items\<close> as the function reads it. \<^verbatim>\<open>keywords\<close> and
  \<^verbatim>\<open>category_id\<close> are nullable columns; \<^verbatim>\<open>view_count\<close> is \<open>None\<close> when the
  property is absent from the object or null.
\<close>

record QAItem =
  qa_id :: string
  question :: string
  answer :: string
  qa_keywords :: "string list option"
  category_id :: "string option"
  view_count :: "int option"

record IntentPattern =
  pattern :: string
  intent :: string
  confidence_threshold :: real

record MatchResult =
  item :: QAItem
  confidence :: jsnum

subsection \<open>The three signals\<close>

definition stopWords :: "string list" where
  "stopWords = [''what'', ''is'', ''the'', ''are'', ''your'', ''my'', ''do'', ''does'', ''can'',
     ''have'', ''how'', ''where'', ''when'', ''why'', ''i'', ''you'', ''a'', ''an'', ''and'', ''or'',
     ''but'', ''of'', ''to'', ''for'', ''with'', ''on'', ''at'', ''by'', ''from'', ''up'', ''about'',
     ''into'', ''through'', ''during'', ''before'', ''after'', ''above'', ''below'', ''between'',
     ''among'', ''within'', ''without'', ''along'', ''following'', ''across'', ''behind'',
     ''beyond'', ''plus'', ''except'', ''but'', ''than'', ''that'', ''this'', ''these'', ''those'']"

text \<open>The filter of \<^verbatim>\<open>calculateSimilarity\<close>: longer than two characters and no stop word.\<close>

definition content_word :: "string \<Rightarrow> bool" where
  "content_word w = (2 < length w \<and> w \<notin> set stopWords)"

definition lexical_words :: "string \<Rightarrow> string list" where
  "lexical_words s = filter content_word (split_ws (toLowerCase s))"

text \<open>
  The inner loop of the partial matches stops at the first \<open>word2\<close> that differs from
  \<open>word1\<close> and contains it or is contained in it; the outer loop adds 0.5 for each
  \<open>word1\<close> that has one.
\<close>

definition partial_hit :: "string \<Rightarrow> string list \<Rightarrow> bool" where
  "partial_hit word1 words2 =
     list_ex (\<lambda>word2. word1 \<noteq> word2 \<and> (str_includes word1 word2 \<or> str_includes word2 word1)) words2"

fun partialMatches :: "string list \<Rightarrow> string list \<Rightarrow> real" where
  "partialMatches [] words2 = 0"
| "partialMatches (word1 # rest) words2 =
     (if partial_hit word1 words2 then 1 / 2 else 0) + partialMatches rest words2"

definition exactMatches :: "string list \<Rightarrow> string list \<Rightarrow> nat" where
  "exactMatches words1 words2 = length (filter (\<lambda>word. word \<in> set words2) words1)"

definition similarity_of_words :: "string list \<Rightarrow> string list \<Rightarrow> real" where
  "similarity_of_words words1 words2 =
     (if length words1 = 0 \<or> length words2 = 0 then 0
      else (real (exactMatches words1 words2) + partialMatches words1 words2)
           / real (max (length words1) (length words2)))"

definition calculateSimilarity :: "string \<Rightarrow> string \<Rightarrow> real" where
  "calculateSimilarity str1 str2 = similarity_of_words (lexical_words str1) (lexical_words str2)"

definition synonyms :: "(string \<times> string list) list" where
  "synonyms =
    [(''speed'', [''velocity'', ''pace'', ''fast'', ''quick'', ''mph'', ''rate'']),
     (''range'', [''distance'', ''miles'', ''travel'', ''reach'', ''mileage'']),
     (''battery'', [''charge'', ''power'', ''energy'', ''charging'']),
     (''waterproof'', [''water'', ''rain'', ''wet'', ''weather'', ''resistant'']),
     (''warranty'', [''guarantee'', ''coverage'', ''protection'', ''policy'']),
     (''legal'', [''law'', ''regulations'', ''rules'', ''permitted'', ''street'', ''road'']),
     (''service'', [''repair'', ''maintenance'', ''fix'', ''support'']),
     (''track'', [''follow'', ''monitor'', ''status'', ''order'']),
     (''payment'', [''pay'', ''cost'', ''price'', ''billing'', ''methods'']),
     (''return'', [''refund'', ''exchange'', ''send back'', ''policy'']),
     (''models'', [''types'', ''versions'', ''variants'', ''options'', ''scooters'', ''products'']),
     (''differences'', [''compare'', ''comparison'', ''different'', ''features'', ''specs'']),
     (''features'', [''specs'', ''specifications'', ''capabilities'', ''options'']),
     (''delivery'', [''shipping'', ''shipping'', ''transport'', ''sent'']),
     (''accessories'', [''parts'', ''add-ons'', ''extras'', ''components''])]"

definition areSimilarWords :: "string \<Rightarrow> string \<Rightarrow> bool" where
  "areSimilarWords word1 word2 =
     list_ex (\<lambda>(key, values).
        (word1 = key \<and> word2 \<in> set values) \<or>
        (word2 = key \<and> word1 \<in> set values) \<or>
        (word1 \<in> set values \<and> word2 \<in> set values)) synonyms"

text \<open>
  \<^verbatim>\<open>calculateKeywordMatch\<close>; the caller has already replaced a null keyword list by
  the empty one.
\<close>

definition keyword_hit :: "string list \<Rightarrow> string \<Rightarrow> bool" where
  "keyword_hit queryWords keyword =
     list_ex (\<lambda>word.
        str_includes word (toLowerCase keyword) \<or>
        str_includes (toLowerCase keyword) word \<or>
        areSimilarWords word (toLowerCase keyword)) queryWords"

definition calculateKeywordMatch :: "string \<Rightarrow> string list \<Rightarrow> real" where
  "calculateKeywordMatch query kws =
     (if length kws = 0 then 0
      else real (length (filter (keyword_hit (split_ws (toLowerCase query))) kws))
           / real (length kws))"

text \<open>
  \<^verbatim>\<open>calculateSemanticSimilarity\<close>. The inner loop stops at the first question word
  that is equal to the query word (1), a synonym of it (0.8) or, both being longer than
  three characters, contains it or is contained in it (0.6).
\<close>

definition semantic_words :: "string \<Rightarrow> string list" where
  "semantic_words s = filter (\<lambda>word. 2 < length word) (split_ws (toLowerCase s))"

fun word_contribution :: "string \<Rightarrow> string list \<Rightarrow> real" where
  "word_contribution queryWord [] = 0"
| "word_contribution queryWord (questionWord # rest) =
     (if queryWord = questionWord then 1
      else if areSimilarWords queryWord questionWord then 8 / 10
      else if 3 < length queryWord \<and> 3 < length questionWord \<and>
              (str_includes queryWord questionWord \<or> str_includes questionWord queryWord) then 6 / 10
      else word_contribution queryWord rest)"

fun semanticLoop :: "string list \<Rightarrow> string list \<Rightarrow> real" where
  "semanticLoop [] questionWords = 0"
| "semanticLoop (queryWord # rest) questionWords =
     word_contribution queryWord questionWords + semanticLoop rest questionWords"

definition boosts :: "string \<Rightarrow> string \<Rightarrow> real" where
  "boosts query qn =
     (if str_includes query ''model'' \<and> str_includes qn ''model'' then 5 / 10 else 0) +
     (if str_includes query ''difference'' \<and> str_includes qn ''difference'' then 5 / 10 else 0) +
     (if str_includes query ''types'' \<and> (str_includes qn ''model'' \<or> str_includes qn ''difference'')
      then 3 / 10 else 0)"

definition calculateSemanticSimilarity :: "string \<Rightarrow> string \<Rightarrow> jsnum" where
  "calculateSemanticSimilarity query qn =
     (let queryWords = semantic_words query;
          questionWords = semantic_words qn;
          semanticMatches = semanticLoop queryWords questionWords + boosts query qn;
          totalQueryWords = length queryWords
      in Math_min (js_div semanticMatches (real totalQueryWords)) (Num 1))"

subsection \<open>The Matcher\<close>

definition finalScore :: "string \<Rightarrow> QAItem \<Rightarrow> jsnum" where
  "finalScore query it =
     (let questionScore = calculateSimilarity (toLowerCase query) (toLowerCase (question it));
          keywordScore = calculateKeywordMatch (toLowerCase query)
                           (case qa_keywords it of None \<Rightarrow> [] | Some ks \<Rightarrow> ks);
          semanticScore = calculateSemanticSimilarity (toLowerCase query) (toLowerCase (question it))
      in Math_max3 (Num (questionScore * (6 / 10))) (Num (keywordScore * (8 / 10)))
                   (js_times_pos semanticScore 1))"

text \<open>\<^verbatim>\<open>item.view_count || 0\<close>: an absent, null or zero counter is 0.\<close>

definition view_count_or_zero :: "QAItem \<Rightarrow> int" where
  "view_count_or_zero it = (case view_count it of None \<Rightarrow> 0 | Some v \<Rightarrow> if v = 0 then 0 else v)"

text \<open>The loop of \<^verbatim>\<open>findBestMatch\<close> over the pair \<open>(bestMatch, highestScore)\<close>.\<close>

fun findBestMatch_loop ::
  "string \<Rightarrow> QAItem list \<Rightarrow> MatchResult option \<times> jsnum \<Rightarrow> MatchResult option \<times> jsnum" where
  "findBestMatch_loop query [] st = st"
| "findBestMatch_loop query (it # rest) (bestMatch, highestScore) =
     (if js_gt (finalScore query it) highestScore
      then findBestMatch_loop query rest
             (Some \<lparr>item = it\<lparr>view_count := Some (view_count_or_zero it)\<rparr>,
                    confidence = finalScore query it\<rparr>,
              finalScore query it)
      else findBestMatch_loop query rest (bestMatch, highestScore))"

definition findBestMatch :: "string \<Rightarrow> QAItem list \<Rightarrow> MatchResult option" where
  "findBestMatch query qaItems = fst (findBestMatch_loop query qaItems (None, Num 0))"

subsection \<open>Related items, intent detection and suggestions\<close>

definition findRelatedItems :: "QAItem \<Rightarrow> QAItem list \<Rightarrow> string list" where
  "findRelatedItems it allItems =
     map qa_id (take 3 (filter (\<lambda>otherItem. qa_id otherItem \<noteq> qa_id it \<and>
                                              category_id otherItem = category_id it) allItems))"

text \<open>
  The regular-expression engine is a parameter: \<open>regex_test p flags q\<close> is the result
  of \<^verbatim>\<open>new RegExp(p, flags).test(q)\<close>, and \<open>None\<close> when \<open>p\<close> is not a pattern and the
  constructor throws a \<^verbatim>\<open>SyntaxError\<close>. \<^verbatim>\<open>detectIntent\<close> passes the flag \<^verbatim>\<open>i\<close>
  (ignore case) and does not catch the error.
\<close>

datatype error = SyntaxError

type_synonym regex_engine = "string \<Rightarrow> string \<Rightarrow> string \<Rightarrow> bool option"

fun detectIntent :: "regex_engine \<Rightarrow> string \<Rightarrow> IntentPattern list \<Rightarrow> error + string" where
  "detectIntent regex_test query [] = Inr ''general_inquiry''"
| "detectIntent regex_test query (p # patterns) =
     (case regex_test (pattern p) ''i'' query of
        None \<Rightarrow> Inl SyntaxError
      | Some matches \<Rightarrow> if matches then Inr (intent p) else detectIntent regex_test query patterns)"

definition generalQuestions :: "string list" where
  "generalQuestions = [''How do I track my order?'', ''What is the warranty policy?'',
     ''How do I contact customer support?'']"

fun suggestion_loop :: "string list \<Rightarrow> QAItem list \<Rightarrow> string list \<Rightarrow> string list" where
  "suggestion_loop queryWords [] suggestions = suggestions"
| "suggestion_loop queryWords (it # rest) suggestions =
     (let itemWords = split_space (toLowerCase (question it));
          commonWords = filter (\<lambda>word. word \<in> set itemWords) queryWords
      in if 0 < length commonWords \<and> length suggestions < 3
         then suggestion_loop queryWords rest (suggestions @ [question it])
         else suggestion_loop queryWords rest suggestions)"

fun padding_loop :: "string list \<Rightarrow> string list \<Rightarrow> string list" where
  "padding_loop [] suggestions = suggestions"
| "padding_loop (q # rest) suggestions =
     (if length suggestions < 3 \<and> q \<notin> set suggestions
      then padding_loop rest (suggestions @ [q])
      else padding_loop rest suggestions)"

definition generateSuggestedQuestions :: "string \<Rightarrow> QAItem list \<Rightarrow> string list" where
  "generateSuggestedQuestions query qaItems =
     (let suggestions = suggestion_loop (split_space (toLowerCase query)) qaItems []
      in if length suggestions < 3 then padding_loop generalQuestions suggestions
         else suggestions)"

subsection \<open>The generative fallback\<close>

text \<open>
  The value that \<^verbatim>\<open>response.json()\<close> yields, and the outcome of the \<^verbatim>\<open>fetch\<close>: the
  request fails (\<open>NetworkError\<close>) or a response arrives with its status and its body,
  \<open>None\<close> when the body is not JSON. An object is the list of its properties.
\<close>

datatype json =
  JNull | JBool bool | JNumber real | JString string | JArray "json list"
| JObject "(string \<times> json) list"

datatype fetch_result = NetworkError | Response nat "json option"

text \<open>\<^verbatim>\<open>v.name\<close> for a value that is neither null nor undefined, and \<^verbatim>\<open>v[0]\<close>.\<close>

fun get_property :: "string \<Rightarrow> json \<Rightarrow> json option" where
  "get_property name (JObject props) = map_of props name"
| "get_property name _ = None"

fun get_first :: "json \<Rightarrow> json option" where
  "get_first (JArray []) = None"
| "get_first (JArray (x # _)) = Some x"
| "get_first (JObject props) = map_of props ''0''"
| "get_first (JString []) = None"
| "get_first (JString (c # _)) = Some (JString [c])"
| "get_first _ = None"

text \<open>Optional chaining \<^verbatim>\<open>v?.p\<close>: undefined when \<open>v\<close> is undefined or null.\<close>

fun optional :: "(json \<Rightarrow> json option) \<Rightarrow> json option \<Rightarrow> json option" where
  "optional f None = None"
| "optional f (Some JNull) = None"
| "optional f (Some v) = f v"

fun truthy :: "json \<Rightarrow> bool" where
  "truthy JNull = False"
| "truthy (JBool b) = b"
| "truthy (JNumber r) = (r \<noteq> 0)"
| "truthy (JString s) = (s \<noteq> [])"
| "truthy _ = True"

record GeminiAnswer =
  gemini_answer :: json
  gemini_confidence :: jsnum

definition technical_difficulties :: string where
  "technical_difficulties =
     ''I apologize, but I am experiencing technical difficulties. Please try again later.''"

definition unable_to_process :: string where
  "unable_to_process = ''I apologize, but I am unable to process your request at the moment.''"

text \<open>
  \<^verbatim>\<open>data.candidates?.[0]?.content?.parts?.[0]?.text\<close>; the first access is not optional
  and throws a \<^verbatim>\<open>TypeError\<close> on null, which is \<open>None\<close> here.
\<close>

definition candidate_text :: "json \<Rightarrow> json option option" where
  "candidate_text data =
     (case data of
        JNull \<Rightarrow> None
      | _ \<Rightarrow> Some (optional (get_property ''text'')
                 (optional get_first
                   (optional (get_property ''parts'')
                     (optional (get_property ''content'')
                       (optional get_first (get_property ''candidates'' data)))))))"

text \<open>
  \<^verbatim>\<open>callGeminiAPI\<close> from its \<^verbatim>\<open>try\<close> block on, given the outcome of the request. The
  prompt, built before, only decides what the service answers. Everything thrown in the
  block (by \<^verbatim>\<open>fetch\<close>, by \<^verbatim>\<open>response.json()\<close>, by the property access) reaches the
  \<^verbatim>\<open>catch\<close>; the status of the response is not looked at.
\<close>

definition callGeminiAPI :: "fetch_result \<Rightarrow> GeminiAnswer" where
  "callGeminiAPI outcome =
     (let caught = \<lparr>gemini_answer = JString technical_difficulties,
                     gemini_confidence = Num (1 / 10)\<rparr>
      in case outcome of
           NetworkError \<Rightarrow> caught
         | Response status body \<Rightarrow>
             (case body of
                None \<Rightarrow> caught
              | Some data \<Rightarrow>
                  (case candidate_text data of
                     None \<Rightarrow> caught
                   | Some text \<Rightarrow>
                       \<lparr>gemini_answer =
                          (case text of
                             None \<Rightarrow> JString unable_to_process
                           | Some t \<Rightarrow> if truthy t then t else JString unable_to_process),
                        gemini_confidence = Num (8 / 10)\<rparr>)))"

subsection \<open>The request handler\<close>

text \<open>
  The table \<^verbatim>\<open>qa_items\<close>, and the query of the handler on it: the rows with
  \<^verbatim>\<open>is_active = true\<close>, with the columns \<^verbatim>\<open>id, question, answer, keywords, category_id\<close>
  (and the category name, which nothing reads). \<^verbatim>\<open>view_count\<close> is not selected, so
  the objects the handler works on do not have the property.
\<close>

record QARow =
  row_id :: string
  row_category_id :: "string option"
  row_question :: string
  row_answer :: string
  row_keywords :: "string list option"
  row_view_count :: "int option"
  row_is_active :: "bool option"

definition select_qa_items :: "QARow list \<Rightarrow> QAItem list" where
  "select_qa_items rows =
     map (\<lambda>r. \<lparr>qa_id = row_id r, question = row_question r, answer = row_answer r,
               qa_keywords = row_keywords r, category_id = row_category_id r,
               view_count = None\<rparr>)
         (filter (\<lambda>r. row_is_active r = Some True) rows)"

text \<open>
  \<^verbatim>\<open>.update({ view_count: v }).eq('id', i)\<close>; a \<^verbatim>\<open>NaN\<close> is sent as null, which is
  \<open>None\<close>.
\<close>

definition update_view_count :: "QARow list \<Rightarrow> string \<Rightarrow> int option \<Rightarrow> QARow list" where
  "update_view_count rows i v =
     map (\<lambda>r. if row_id r = i then r\<lparr>row_view_count := v\<rparr> else r) rows"

text \<open>
  What the handler computes and stores as the assistant's message; the reply to the
  caller carries \<open>content\<close>, \<open>confidence_score\<close>, \<open>suggested_questions\<close> and
  \<open>related_qa_items\<close> of it.
\<close>

record AssistantMessage =
  content :: json
  suggested_questions :: "string list"
  confidence_score :: jsnum
  matched_intent :: string
  related_qa_items :: "string list"
  response_source :: string

text \<open>
  The handler, from the two queries to the reply, as a function of the table, the active
  intent patterns, the threshold (the literal of the source is 0.3, see \<open>serve\<close>) and
  the two collaborators. It returns the table after the request and the message, or the
  error that the outer \<^verbatim>\<open>catch\<close> turns into the status 500.
\<close>

definition handle_request ::
  "real \<Rightarrow> regex_engine \<Rightarrow> fetch_result \<Rightarrow> string \<Rightarrow> QARow list \<Rightarrow>
   IntentPattern list \<Rightarrow> QARow list \<times> (error + AssistantMessage)" where
  "handle_request threshold regex_test outcome query rows intentPatterns =
     (let qaItems = select_qa_items rows;
          bestMatch = findBestMatch query qaItems;
          suggestedQuestions = generateSuggestedQuestions query qaItems
      in case (case bestMatch of
                 None \<Rightarrow> None
               | Some m \<Rightarrow> if js_gt (confidence m) (Num threshold) then Some m else None) of
           Some m \<Rightarrow>
             (update_view_count rows (qa_id (item m))
                (map_option (\<lambda>v. v + 1) (view_count (item m))),
              Inr \<lparr>content = JString (answer (item m)),
                   suggested_questions = suggestedQuestions,
                   confidence_score = confidence m,
                   matched_intent = [],
                   related_qa_items = findRelatedItems (item m) qaItems,
                   response_source = ''qa_database''\<rparr>)
         | None \<Rightarrow>
             (let geminiResponse = callGeminiAPI outcome
              in case detectIntent regex_test query intentPatterns of
                   Inl e \<Rightarrow> (rows, Inl e)
                 | Inr matchedIntent \<Rightarrow>
                     (rows,
                      Inr \<lparr>content = gemini_answer geminiResponse,
                           suggested_questions = suggestedQuestions,
                           confidence_score = gemini_confidence geminiResponse,
                           matched_intent = matchedIntent,
                           related_qa_items = [],
                           response_source = ''ai''\<rparr>)))"

definition serve ::
  "regex_engine \<Rightarrow> fetch_result \<Rightarrow> string \<Rightarrow> QARow list \<Rightarrow>
   IntentPattern list \<Rightarrow> QARow list \<times> (error + AssistantMessage)" where
  "serve = handle_request (3 / 10)"

text \<open>The outcomes of the request on which the \<^verbatim>\<open>try\<close> block of \<^verbatim>\<open>callGeminiAPI\<close> throws.\<close>

definition try_block_throws :: "fetch_result \<Rightarrow> bool" where
  "try_block_throws outcome =
     (case outcome of
        NetworkError \<Rightarrow> True
      | Response status None \<Rightarrow> True
      | Response status (Some data) \<Rightarrow> data = JNull)"

text \<open>The condition of the handler's \<^verbatim>\<open>if\<close>: a best match whose confidence exceeds the threshold.\<close>

definition faq_path :: "real \<Rightarrow> string \<Rightarrow> QARow list \<Rightarrow> bool" where
  "faq_path threshold query rows =
     (case findBestMatch query (select_qa_items rows) of
        None \<Rightarrow> False
      | Some m \<Rightarrow> js_gt (confidence m) (Num threshold))"

text \<open>
  The patterns that \<^verbatim>\<open>detectIntent\<close> tests without a match: those before the first
  pattern that matches the query, all of them when none matches.
\<close>

definition patterns_tried :: "regex_engine \<Rightarrow> string \<Rightarrow> IntentPattern list \<Rightarrow> IntentPattern list" where
  "patterns_tried regex_test query patterns =
     takeWhile (\<lambda>p. regex_test (pattern p) ''i'' query \<noteq> Some True) patterns"

subsection \<open>The invariant of the Matcher's loop\<close>

text \<open>
  After the entries \<open>seen\<close>: the highest score is a number between 0 and 1 that no entry
  seen exceeds; it is 0 as long as there is no best match, and otherwise positive, the
  confidence of the best match and the final score of the entry seen that the best match
  copies, which is the first entry seen with this score.
\<close>

definition match_inv :: "string \<Rightarrow> QAItem list \<Rightarrow> MatchResult option \<times> jsnum \<Rightarrow> bool" where
  "match_inv query seen st =
     (case st of (bestMatch, highestScore) \<Rightarrow>
        \<exists>h. highestScore = Num h \<and> 0 \<le> h \<and> h \<le> 1 \<and>
            (\<forall>other \<in> set seen. \<not> js_gt (finalScore query other) highestScore) \<and>
            (case bestMatch of
               None \<Rightarrow> h = 0
             | Some m \<Rightarrow> 0 < h \<and> confidence m = highestScore \<and>
                 (\<exists>earlier it later. seen = earlier @ it # later \<and>
                    item m = it\<lparr>view_count := Some (view_count_or_zero it)\<rparr> \<and>
                    finalScore query it = highestScore \<and>
                    (\<forall>other \<in> set earlier. finalScore query other \<noteq> highestScore))))"

subsection \<open>Sample entries\<close>

definition return_policy :: QAItem where
  "return_policy = \<lparr>qa_id = ''q1'', question = ''What is the return policy?'',
     answer = ''Thirty days.'', qa_keywords = Some [''return'', ''refund''],
     category_id = None, view_count = None\<rparr>"

definition track_it :: QAItem where
  "track_it = \<lparr>qa_id = ''q2'', question = ''Where can I track my scooter?'',
     answer = ''In the app.'', qa_keywords = None, category_id = None, view_count = None\<rparr>"

definition track_it_again :: QAItem where
  "track_it_again = \<lparr>qa_id = ''q3'', question = ''Where can I track my scooter?'',
     answer = ''On the order page.'', qa_keywords = None, category_id = None,
     view_count = None\<rparr>"

definition return_policy_row :: QARow where
  "return_policy_row = \<lparr>row_id = ''q1'', row_category_id = None,
     row_question = ''What is the return policy?'', row_answer = ''Thirty days.'',
     row_keywords = Some [''return'', ''refund''], row_view_count = Some 5,
     row_is_active = Some True\<rparr>"


text \<open>
  For the examples, the regular-expression engine on the patterns the examples use. A
  pattern of letters, digits and spaces has no metacharacter: it is found where the query
  contains it, letter case aside under the flag \<^verbatim>\<open>i\<close>. The patterns \<^verbatim>\<open>*\<close> and \<^verbatim>\<open>(\<close> are
  no regular expressions (nothing to repeat, unterminated group). The sample engine
  refuses every other pattern as well; the examples use none.
\<close>

definition literal_pattern :: "string \<Rightarrow> bool" where
  "literal_pattern p =
     list_all (\<lambda>c. c \<in> set ''abcdefghijklmnopqrstuvwxyzABCDEFGHIJKLMNOPQRSTUVWXYZ0123456789 '') p"

definition literal_test :: regex_engine where
  "literal_test p flags q =
     (if literal_pattern p
      then Some (if CHR ''i'' \<in> set flags then str_includes (toLowerCase q) (toLowerCase p)
                 else str_includes q p)
      else None)"

definition sample_patterns :: "IntentPattern list" where
  "sample_patterns =
     [\<lparr>pattern = ''refund'', intent = ''refund_request'', confidence_threshold = 7 / 10\<rparr>,
      \<lparr>pattern = ''hello'', intent = ''greeting'', confidence_threshold = 7 / 10\<rparr>,
      \<lparr>pattern = ''there'', intent = ''location'', confidence_threshold = 7 / 10\<rparr>]"

text \<open>A list that ends in a pattern that is no regular expression, and one that starts with it.\<close>

definition patterns_broken_last :: "IntentPattern list" where
  "patterns_broken_last =
     [\<lparr>pattern = ''hello'', intent = ''greeting'', confidence_threshold = 7 / 10\<rparr>,
      \<lparr>pattern = ''*'', intent = ''anything'', confidence_threshold = 7 / 10\<rparr>]"

definition patterns_broken_first :: "IntentPattern list" where
  "patterns_broken_first =
     [\<lparr>pattern = ''*'', intent = ''anything'', confidence_threshold = 7 / 10\<rparr>,
      \<lparr>pattern = ''hello'', intent = ''greeting'', confidence_threshold = 7 / 10\<rparr>]"

text \<open>A body of the service with one candidate whose text is \<open>text\<close>.\<close>

definition gemini_payload :: "string \<Rightarrow> json" where
  "gemini_payload text =
     JObject [(''candidates'',
       JArray [JObject [(''content'',
         JObject [(''parts'', JArray [JObject [(''text'', JString text)]]),
                  (''role'', JString ''model'')])]])]"

text \<open>The body of an error response of the service.\<close>

definition error_body :: json where
  "error_body =
     JObject [(''error'', JObject [(''code'', JNumber 500), (''status'', JString ''INTERNAL'')])]"

section \<open>Properties\<close>

subsection \<open>Ranges of the signals\<close>

lemma exactMatches_le: "exactMatches words1 words2 \<le> length words1"
  by (simp add: exactMatches_def)

lemma partialMatches_bounds:
  "0 \<le> partialMatches words1 words2 \<and> partialMatches words1 words2 \<le> real (length words1) / 2"
  by (induction words1) auto

lemma similarity_of_words_bounds:
  "0 \<le> similarity_of_words words1 words2 \<and> similarity_of_words words1 words2 \<le> 3 / 2"
proof (cases "length words1 = 0 \<or> length words2 = 0")
  case True
  then show ?thesis by (simp add: similarity_of_words_def)
next
  case False
  let ?n = "real (max (length words1) (length words2))"
  let ?t = "real (exactMatches words1 words2) + partialMatches words1 words2"
  have "0 < max (length words1) (length words2)" using False by (cases words1) auto
  then have n: "0 < ?n" "real (length words1) \<le> ?n" by simp_all
  have e: "real (exactMatches words1 words2) \<le> real (length words1)"
    using exactMatches_le [of words1 words2] by simp
  have p: "0 \<le> partialMatches words1 words2"
     "partialMatches words1 words2 \<le> real (length words1) / 2"
    using partialMatches_bounds [of words1 words2] by simp_all
  have t0: "0 \<le> ?t" using p by simp
  have t1: "?t \<le> 3 / 2 * ?n" using e p n by simp
  have "?t / ?n \<le> 3 / 2" using t1 n(1) by (simp add: pos_divide_le_eq)
  moreover have "0 \<le> ?t / ?n" using t0 n(1) by simp
  ultimately show ?thesis using False by (simp add: similarity_of_words_def)
qed

lemma calculateKeywordMatch_bounds:
  "0 \<le> calculateKeywordMatch query kws \<and> calculateKeywordMatch query kws \<le> 1"
proof (cases "length kws = 0")
  case True
  then show ?thesis by (simp add: calculateKeywordMatch_def)
next
  case False
  have "length (filter (keyword_hit (split_ws (toLowerCase query))) kws) \<le> length kws"
    by simp
  then show ?thesis using False
    by (simp add: calculateKeywordMatch_def)
qed

lemma word_contribution_bounds:
  "0 \<le> word_contribution w ws \<and> word_contribution w ws \<le> 1"
  by (induction ws) auto

lemma semanticLoop_bounds:
  "0 \<le> semanticLoop qs ws \<and> semanticLoop qs ws \<le> real (length qs)"
proof (induction qs)
  case Nil
  show ?case by simp
next
  case (Cons q qs)
  then show ?case using word_contribution_bounds [of q ws] by simp
qed

lemma boosts_nonneg: "0 \<le> boosts query qn"
  by (simp add: boosts_def)

lemma semantic_cases:
  "calculateSemanticSimilarity query qn = NaN \<or>
   (\<exists>s. calculateSemanticSimilarity query qn = Num s \<and> 0 \<le> s \<and> s \<le> 1)"
proof -
  let ?m = "semanticLoop (semantic_words query) (semantic_words qn) + boosts query qn"
  let ?n = "real (length (semantic_words query))"
  have m: "0 \<le> ?m"
    using semanticLoop_bounds [of "semantic_words query" "semantic_words qn"]
      boosts_nonneg [of query qn] by simp
  show ?thesis
  proof (cases "?n = 0")
    case True
    then show ?thesis using m
      by (auto simp add: calculateSemanticSimilarity_def Let_def js_div_def)
  next
    case False
    then have "0 < ?n" by simp
    then have "0 \<le> ?m / ?n" using m by simp
    then show ?thesis using False
      by (auto simp add: calculateSemanticSimilarity_def Let_def js_div_def)
  qed
qed

lemma semantic_number:
  assumes "semantic_words query \<noteq> []"
  shows "\<exists>s. calculateSemanticSimilarity query qn = Num s \<and> 0 \<le> s \<and> s \<le> 1"
proof -
  have "calculateSemanticSimilarity query qn \<noteq> NaN"
    using assms by (auto simp add: calculateSemanticSimilarity_def Let_def js_div_def)
  then show ?thesis using semantic_cases [of query qn] by blast
qed

lemma charge_charger_similarity:
  "calculateSimilarity ''charge charger'' ''charge charger'' = 3 / 2"
  by code_simp

text \<open>
  C5, as stated, fails. The query and the question \<^verbatim>\<open>charge charger\<close> have the same two
  words; each is found in the other list (2 exact matches) and each also contains or is
  contained in the other word (2 partial matches of 0.5), so the lexical similarity is
  \<open>3 / 2\<close>, above 1.
\<close>

theorem lexical_similarity_above_one:
  "\<not> (0 \<le> calculateSimilarity ''charge charger'' ''charge charger'' \<and>
      calculateSimilarity ''charge charger'' ''charge charger'' \<le> 1)"
  by (simp add: charge_charger_similarity)

text \<open>
  C5, amended: for every pair of strings the lexical similarity lies in \<open>[0, 3/2]\<close>; for
  every query and keyword list the keyword match lies in \<open>[0, 1]\<close>; for every query that
  has a word of more than two characters and every question, the semantic similarity is
  a number in \<open>[0, 1]\<close>.
\<close>

theorem signal_ranges:
  "0 \<le> calculateSimilarity str1 str2 \<and> calculateSimilarity str1 str2 \<le> 3 / 2 \<and>
   0 \<le> calculateKeywordMatch query kws \<and> calculateKeywordMatch query kws \<le> 1 \<and>
   (semantic_words query \<noteq> [] \<longrightarrow>
      (\<exists>s. calculateSemanticSimilarity query qn = Num s \<and> 0 \<le> s \<and> s \<le> 1))"
  using similarity_of_words_bounds [of "lexical_words str1" "lexical_words str2"]
    calculateKeywordMatch_bounds [of query kws] semantic_number [of query qn]
  by (simp add: calculateSimilarity_def)

lemma how_fast_words: "semantic_words ''how fast can it go'' \<noteq> []"
  by code_simp

theorem signal_ranges_witness:
  "semantic_words ''how fast can it go'' \<noteq> [] \<and>
   (\<exists>s. calculateSemanticSimilarity ''how fast can it go'' ''what is the top speed?'' = Num s \<and>
        0 \<le> s \<and> s \<le> 1)"
  using signal_ranges [of _ _ "''how fast can it go''" _ "''what is the top speed?''"]
    how_fast_words
  by blast

subsection \<open>Monotonicity of the lexical similarity\<close>


lemma split_ws_parts_token:
  "\<forall>c \<in> set t. \<not> is_space c \<Longrightarrow> split_ws_parts t = (t, [])"
  by (induction t) auto

lemma split_ws_parts_append:
  assumes sp: "is_space sp" and t: "\<forall>c \<in> set t. \<not> is_space c" and F: "\<not> F []"
  shows "fst (split_ws_parts (cs @ sp # t)) = fst (split_ws_parts cs) \<and>
         filter F (snd (split_ws_parts (cs @ sp # t))) =
           filter F (snd (split_ws_parts cs)) @ filter F [t]"
proof (induction cs)
  case Nil
  show ?case using sp t F split_ws_parts_token [OF t]
    by (cases t) auto
next
  case (Cons c cs)
  obtain w ws where p: "split_ws_parts cs = (w, ws)" by (cases "split_ws_parts cs")
  obtain w' ws' where r: "split_ws_parts (cs @ sp # t) = (w', ws')"
    by (cases "split_ws_parts (cs @ sp # t)")
  from Cons.IH p r have ih: "w' = w" "filter F ws' = filter F ws @ filter F [t]" by simp_all
  show ?case
  proof (cases cs)
    case Nil
    with p r ih sp F show ?thesis by auto
  next
    case (Cons d ds)
    with p r ih sp F show ?thesis by auto
  qed
qed

lemma split_ws_append:
  assumes "is_space sp" and "\<forall>c \<in> set t. \<not> is_space c" and "\<not> F []"
  shows "filter F (split_ws (cs @ sp # t)) = filter F (split_ws cs) @ filter F [t]"
  using split_ws_parts_append [where F = F and sp = sp and t = t and cs = cs, OF assms]
  by (cases "split_ws_parts cs"; cases "split_ws_parts (cs @ sp # t)") (simp add: split_ws_def)

lemma is_space_toLowerCase_char: "is_space (toLowerCase_char c) = is_space c"
  by (auto simp add: toLowerCase_char_def is_space_def split: option.splits if_splits)


lemma toLowerCase_append_token:
  "toLowerCase (s @ CHR '' '' # t) = toLowerCase s @ CHR '' '' # toLowerCase t"
  by (simp add: toLowerCase_def toLowerCase_char_def)

lemma toLowerCase_no_space:
  "\<forall>c \<in> set t. \<not> is_space c \<Longrightarrow> \<forall>c \<in> set (toLowerCase t). \<not> is_space c"
  by (simp add: toLowerCase_def is_space_toLowerCase_char)

lemma lexical_words_append:
  assumes "\<forall>c \<in> set t. \<not> is_space c"
  shows "lexical_words (s @ CHR '' '' # t) = lexical_words s @ filter content_word [toLowerCase t]"
proof -
  have sp: "is_space CHR '' ''" by (simp add: is_space_def)
  have e: "\<not> content_word []" by (simp add: content_word_def)
  show ?thesis
    unfolding lexical_words_def toLowerCase_append_token
    using split_ws_append [where F = content_word and sp = "CHR '' ''"
        and t = "toLowerCase t" and cs = "toLowerCase s", OF sp toLowerCase_no_space [OF assms] e]
    by simp
qed

lemma partialMatches_append:
  "partialMatches (xs @ ys) ws = partialMatches xs ws + partialMatches ys ws"
  by (induction xs) simp_all

lemma partialMatches_mono:
  "partialMatches xs ws \<le> partialMatches xs (ws @ us)"
  by (induction xs) (auto simp add: partial_hit_def)

lemma exactMatches_append_token:
  "exactMatches words1 words2 + 1 \<le> exactMatches (words1 @ [t]) (words2 @ [t])"
proof -
  have "length (filter (\<lambda>word. word \<in> set words2) words1) \<le>
        length (filter (\<lambda>word. word \<in> set (words2 @ [t])) words1)"
    by (induction words1) auto
  then show ?thesis by (simp add: exactMatches_def)
qed

lemma similarity_of_words_append_token:
  assumes "similarity_of_words words1 words2 \<le> 1"
  shows "similarity_of_words words1 words2 \<le> similarity_of_words (words1 @ [t]) (words2 @ [t])"
proof (cases "length words1 = 0 \<or> length words2 = 0")
  case True
  then have "similarity_of_words words1 words2 = 0" by (simp add: similarity_of_words_def)
  then show ?thesis using similarity_of_words_bounds [of "words1 @ [t]" "words2 @ [t]"] by simp
next
  case False
  let ?n = "real (max (length words1) (length words2))"
  let ?a = "real (exactMatches words1 words2) + partialMatches words1 words2"
  let ?a' = "real (exactMatches (words1 @ [t]) (words2 @ [t])) +
             partialMatches (words1 @ [t]) (words2 @ [t])"
  have "0 < max (length words1) (length words2)" using False by (cases words1) auto
  then have n: "0 < ?n" by simp
  have old: "similarity_of_words words1 words2 = ?a / ?n"
    using False by (simp add: similarity_of_words_def)
  have n': "real (max (length (words1 @ [t])) (length (words2 @ [t]))) = ?n + 1"
    by (simp add: max_def)
  have new: "similarity_of_words (words1 @ [t]) (words2 @ [t]) = ?a' / (?n + 1)"
    unfolding similarity_of_words_def n' by simp
  have a1: "?a \<le> ?n" using assms old n by (simp add: pos_divide_le_eq)
  have "real (exactMatches words1 words2) + 1 \<le> real (exactMatches (words1 @ [t]) (words2 @ [t]))"
    using exactMatches_append_token [of words1 words2 t] by linarith
  moreover have "partialMatches words1 words2 \<le> partialMatches (words1 @ [t]) (words2 @ [t])"
    using partialMatches_mono [of words1 words2 "[t]"]
      partialMatches_bounds [of "[t]" "words2 @ [t]"]
    by (simp add: partialMatches_append)
  ultimately have a': "?a + 1 \<le> ?a'" by linarith
  have "?a * (?n + 1) \<le> (?a + 1) * ?n" using a1 by (simp add: algebra_simps)
  also have "\<dots> \<le> ?a' * ?n" using a' n by (simp add: mult_right_mono)
  finally have "?a / ?n \<le> ?a' / (?n + 1)" using n by (simp add: field_simps)
  then show ?thesis using old new by simp
qed

text \<open>
  C8, amended: for every query and question whose lexical similarity is at most 1, and
  every token without white space, appending the token (after a space) to both the query
  and the question does not decrease the lexical similarity.
\<close>

theorem lexical_similarity_monotone:
  assumes "\<forall>c \<in> set token. \<not> is_space c"
      and "calculateSimilarity query qn \<le> 1"
  shows "calculateSimilarity query qn \<le>
         calculateSimilarity (query @ '' '' @ token) (qn @ '' '' @ token)"
proof (cases "content_word (toLowerCase token)")
  case True
  then show ?thesis
    using assms(2) similarity_of_words_append_token [of "lexical_words query" "lexical_words qn"
        "toLowerCase token"]
    by (simp add: calculateSimilarity_def lexical_words_append [OF assms(1)])
next
  case False
  then show ?thesis
    by (simp add: calculateSimilarity_def lexical_words_append [OF assms(1)])
qed

lemma battery_similarity:
  "calculateSimilarity ''charge charger battery'' ''charge charger battery'' = 4 / 3"
  by code_simp

text \<open>
  C8, as stated, fails: the query and the question \<^verbatim>\<open>charge charger\<close> have lexical
  similarity \<open>3 / 2\<close> (see C5); with the shared token \<^verbatim>\<open>battery\<close> added to both, there
  are 3 exact and 2 partial matches on 3 words, which is \<open>4 / 3\<close>.
\<close>

theorem lexical_similarity_decreases:
  "\<not> (calculateSimilarity ''charge charger'' ''charge charger'' \<le>
      calculateSimilarity (''charge charger'' @ '' '' @ ''battery'')
        (''charge charger'' @ '' '' @ ''battery''))"
  by (simp add: charge_charger_similarity battery_similarity)

lemma scooter_token: "\<forall>c \<in> set ''scooter''. \<not> is_space c"
  by (simp add: is_space_def)

lemma return_policy_similarity:
  "calculateSimilarity ''return policy'' ''what is the return policy'' = 1"
  by code_simp

theorem lexical_similarity_monotone_witness:
  "list_all (\<lambda>c. \<not> is_space c) ''scooter'' \<and>
   calculateSimilarity ''return policy'' ''what is the return policy'' \<le> 1 \<and>
   calculateSimilarity ''return policy'' ''what is the return policy'' \<le>
     calculateSimilarity (''return policy'' @ '' '' @ ''scooter'')
       (''what is the return policy'' @ '' '' @ ''scooter'')"
proof -
  have le: "calculateSimilarity ''return policy'' ''what is the return policy'' \<le> 1"
    by (simp add: return_policy_similarity)
  from lexical_similarity_monotone [OF scooter_token le] scooter_token le
  show ?thesis by (simp add: list_all_iff)
qed

subsection \<open>The Matcher\<close>

lemma Math_max3_Num:
  "Math_max3 (Num a) (Num b) (Num c) = Num (max a (max b c))"
  by (simp add: Math_max3_def max_def)

lemma finalScore_Num:
  assumes "calculateSemanticSimilarity (toLowerCase query) (toLowerCase (question it)) = Num s"
  shows "finalScore query it =
     Num (max (calculateSimilarity (toLowerCase query) (toLowerCase (question it)) * (6 / 10))
           (max (calculateKeywordMatch (toLowerCase query)
                   (case qa_keywords it of None \<Rightarrow> [] | Some ks \<Rightarrow> ks) * (8 / 10))
                (s * 1)))"
  using assms by (simp add: finalScore_def Let_def Math_max3_Num)

lemma finalScore_NaN:
  assumes "calculateSemanticSimilarity (toLowerCase query) (toLowerCase (question it)) = NaN"
  shows "finalScore query it = NaN"
  using assms by (simp add: finalScore_def Let_def Math_max3_def)

lemma finalScore_cases:
  "finalScore query it = NaN \<or> (\<exists>c. finalScore query it = Num c \<and> 0 \<le> c \<and> c \<le> 1)"
proof -
  let ?q = "calculateSimilarity (toLowerCase query) (toLowerCase (question it))"
  let ?k = "calculateKeywordMatch (toLowerCase query)
              (case qa_keywords it of None \<Rightarrow> [] | Some ks \<Rightarrow> ks)"
  have q: "0 \<le> ?q" "?q \<le> 3 / 2"
    using similarity_of_words_bounds by (simp_all add: calculateSimilarity_def)
  have k: "0 \<le> ?k" "?k \<le> 1"
    using calculateKeywordMatch_bounds by simp_all
  from semantic_cases [of "toLowerCase query" "toLowerCase (question it)"]
  show ?thesis
  proof
    assume "calculateSemanticSimilarity (toLowerCase query) (toLowerCase (question it)) = NaN"
    then show ?thesis by (simp add: finalScore_NaN)
  next
    assume "\<exists>s. calculateSemanticSimilarity (toLowerCase query) (toLowerCase (question it)) = Num s
              \<and> 0 \<le> s \<and> s \<le> 1"
    then obtain s
      where s: "calculateSemanticSimilarity (toLowerCase query) (toLowerCase (question it)) = Num s"
        "0 \<le> s" "s \<le> 1" by blast
    have "finalScore query it = Num (max (?q * (6 / 10)) (max (?k * (8 / 10)) (s * 1)))"
      using s(1) by (rule finalScore_Num)
    moreover have "0 \<le> max (?q * (6 / 10)) (max (?k * (8 / 10)) (s * 1))"
      using q(1) by (simp add: le_max_iff_disj)
    moreover have "max (?q * (6 / 10)) (max (?k * (8 / 10)) (s * 1)) \<le> 1"
      using q(2) k(2) s(3) by simp
    ultimately show ?thesis by blast
  qed
qed

lemma finalScore_Num_semantic:
  assumes "finalScore query it = Num h"
  shows "\<exists>s. calculateSemanticSimilarity (toLowerCase query) (toLowerCase (question it)) = Num s"
  using assms semantic_cases [of "toLowerCase query" "toLowerCase (question it)"]
    finalScore_NaN [of query it]
  by auto

lemma js_gt_Num_trans:
  "\<not> js_gt x (Num h) \<Longrightarrow> h \<le> c \<Longrightarrow> \<not> js_gt x (Num c)"
  by (cases x) auto

lemma match_inv_step:
  assumes "match_inv query seen (bestMatch, highestScore)"
  shows "match_inv query (seen @ [it])
           (if js_gt (finalScore query it) highestScore
            then (Some \<lparr>item = it\<lparr>view_count := Some (view_count_or_zero it)\<rparr>,
                        confidence = finalScore query it\<rparr>, finalScore query it)
            else (bestMatch, highestScore))"
proof -
  from assms obtain h where h: "highestScore = Num h" "0 \<le> h" "h \<le> 1"
    and others: "\<forall>other \<in> set seen. \<not> js_gt (finalScore query other) (Num h)"
    and best: "case bestMatch of
               None \<Rightarrow> h = 0
             | Some m \<Rightarrow> 0 < h \<and> confidence m = Num h \<and>
                 (\<exists>earlier it later. seen = earlier @ it # later \<and>
                    item m = it\<lparr>view_count := Some (view_count_or_zero it)\<rparr> \<and>
                    finalScore query it = Num h \<and>
                    (\<forall>other \<in> set earlier. finalScore query other \<noteq> Num h))"
    by (auto simp add: match_inv_def)
  show ?thesis
  proof (cases "js_gt (finalScore query it) highestScore")
    case True
    with h(1) finalScore_cases [of query it] obtain c
      where c: "finalScore query it = Num c" "h < c" "c \<le> 1" by auto
    have 1: "\<forall>other \<in> set (seen @ [it]). \<not> js_gt (finalScore query other) (Num c)"
      using others c(1,2) js_gt_Num_trans [of _ h c] by auto
    have 2: "\<forall>other \<in> set seen. finalScore query other \<noteq> Num c"
      using others c(2) by auto
    have "\<exists>earlier it' later. seen @ [it] = earlier @ it' # later \<and>
            it\<lparr>view_count := Some (view_count_or_zero it)\<rparr> =
              it'\<lparr>view_count := Some (view_count_or_zero it')\<rparr> \<and>
            finalScore query it' = Num c \<and>
            (\<forall>other \<in> set earlier. finalScore query other \<noteq> Num c)"
      using 2 c(1) by (intro exI [of _ seen] exI [of _ it] exI [of _ "[]"]) simp
    then show ?thesis using True c h(2) 1
      by (simp add: match_inv_def)
  next
    case False
    have "case bestMatch of
               None \<Rightarrow> h = 0
             | Some m \<Rightarrow> 0 < h \<and> confidence m = Num h \<and>
                 (\<exists>earlier it' later. seen @ [it] = earlier @ it' # later \<and>
                    item m = it'\<lparr>view_count := Some (view_count_or_zero it')\<rparr> \<and>
                    finalScore query it' = Num h \<and>
                    (\<forall>other \<in> set earlier. finalScore query other \<noteq> Num h))"
    proof (cases bestMatch)
      case None
      with best show ?thesis by simp
    next
      case (Some m)
      with best obtain earlier w later
        where w: "0 < h" "confidence m = Num h" "seen = earlier @ w # later"
          "item m = w\<lparr>view_count := Some (view_count_or_zero w)\<rparr>"
          "finalScore query w = Num h"
          "\<forall>other \<in> set earlier. finalScore query other \<noteq> Num h"
        by auto
      have "seen @ [it] = earlier @ w # (later @ [it])" using w(3) by simp
      with w Some show ?thesis by auto
    qed
    then show ?thesis using False h others
      by (simp add: match_inv_def)
  qed
qed

lemma match_inv_loop:
  "match_inv query seen st \<Longrightarrow> match_inv query (seen @ rest) (findBestMatch_loop query rest st)"
proof (induction rest arbitrary: seen st)
  case Nil
  then show ?case by simp
next
  case (Cons it rest)
  obtain bestMatch highestScore where st: "st = (bestMatch, highestScore)" by (cases st)
  from Cons.prems st match_inv_step [of query seen bestMatch highestScore it]
  have "match_inv query (seen @ [it])
           (if js_gt (finalScore query it) highestScore
            then (Some \<lparr>item = it\<lparr>view_count := Some (view_count_or_zero it)\<rparr>,
                        confidence = finalScore query it\<rparr>, finalScore query it)
            else (bestMatch, highestScore))" by simp
  from Cons.IH [OF this] show ?case using st by (simp split: if_splits)
qed

lemma match_inv_findBestMatch:
  "match_inv query qaItems (findBestMatch_loop query qaItems (None, Num 0))"
proof -
  have "match_inv query [] (None, Num 0)" by (simp add: match_inv_def)
  from match_inv_loop [OF this, of qaItems] show ?thesis by simp
qed

lemma findBestMatch_first:
  assumes "findBestMatch query qaItems = Some m"
  shows "\<exists>h earlier it later. confidence m = Num h \<and> 0 < h \<and> h \<le> 1 \<and>
           qaItems = earlier @ it # later \<and>
           item m = it\<lparr>view_count := Some (view_count_or_zero it)\<rparr> \<and>
           finalScore query it = Num h \<and>
           (\<forall>other \<in> set earlier. finalScore query other \<noteq> Num h) \<and>
           (\<forall>other \<in> set qaItems. \<not> js_gt (finalScore query other) (Num h))"
proof -
  obtain hs where "findBestMatch_loop query qaItems (None, Num 0) = (Some m, hs)"
    using assms
    by (cases "findBestMatch_loop query qaItems (None, Num 0)") (simp add: findBestMatch_def)
  with match_inv_findBestMatch [of query qaItems] show ?thesis
    by (simp add: match_inv_def) blast
qed

lemma findBestMatch_Some:
  assumes "findBestMatch query qaItems = Some m"
  shows "\<exists>h it. confidence m = Num h \<and> 0 < h \<and> h \<le> 1 \<and> it \<in> set qaItems \<and>
           item m = it\<lparr>view_count := Some (view_count_or_zero it)\<rparr> \<and>
           finalScore query it = Num h \<and>
           (\<forall>other \<in> set qaItems. \<not> js_gt (finalScore query other) (Num h))"
proof -
  from findBestMatch_first [OF assms] obtain h earlier it later
    where "confidence m = Num h" "0 < h" "h \<le> 1" "qaItems = earlier @ it # later"
      "item m = it\<lparr>view_count := Some (view_count_or_zero it)\<rparr>"
      "finalScore query it = Num h"
      "\<forall>other \<in> set qaItems. \<not> js_gt (finalScore query other) (Num h)"
    by blast
  moreover from this(4) have "it \<in> set qaItems" by simp
  ultimately show ?thesis by blast
qed


lemma return_policy_match:
  "findBestMatch ''What is your return policy?'' [return_policy] =
     Some \<lparr>item = return_policy\<lparr>view_count := Some 0\<rparr>, confidence = Num (8 / 10)\<rparr>"
  by code_simp

lemma return_policy_semantic:
  "calculateSemanticSimilarity (toLowerCase ''What is your return policy?'')
     (toLowerCase (question return_policy)) = Num (3 / 4)"
  by code_simp


text \<open>
  C4: for every query and every list of entries, \<^verbatim>\<open>findBestMatch\<close> returns no result or
  one result; the entry of the result is a member of the list (copied, with its view
  counter read as 0 when absent or null) and the confidence is a number in \<open>[0, 1]\<close>.
\<close>

theorem findBestMatch_result:
  "findBestMatch query qaItems = None \<or>
   (\<exists>m. findBestMatch query qaItems = Some m \<and>
        (\<exists>it \<in> set qaItems. item m = it\<lparr>view_count := Some (view_count_or_zero it)\<rparr>) \<and>
        (\<exists>c. confidence m = Num c \<and> 0 \<le> c \<and> c \<le> 1))"
proof (cases "findBestMatch query qaItems")
  case None
  then show ?thesis by simp
next
  case (Some m)
  from findBestMatch_Some [OF this] obtain h it
    where "confidence m = Num h" "0 < h" "h \<le> 1" "it \<in> set qaItems"
      "item m = it\<lparr>view_count := Some (view_count_or_zero it)\<rparr>" by blast
  then show ?thesis using Some by auto
qed

theorem findBestMatch_result_witness:
  "\<exists>m. findBestMatch ''What is your return policy?'' [return_policy] = Some m \<and>
        (\<exists>it \<in> set [return_policy]. item m = it\<lparr>view_count := Some (view_count_or_zero it)\<rparr>) \<and>
        (\<exists>c. confidence m = Num c \<and> 0 \<le> c \<and> c \<le> 1)"
  using findBestMatch_result [of "''What is your return policy?''" "[return_policy]"]
    return_policy_match
  by simp










lemma stop_word_query:
  "set (split_ws ''what is the'') \<subseteq> set stopWords"
  by code_simp

lemma stop_word_match:
  "findBestMatch ''what is the'' [return_policy] =
     Some \<lparr>item = return_policy\<lparr>view_count := Some 0\<rparr>, confidence = Num 1\<rparr>"
  by code_simp

text \<open>
  C9, as stated, fails in its example: every word of the query \<^verbatim>\<open>what is the\<close> is a stop
  word, and the Matcher returns a result for it (with confidence 1), because
  \<^verbatim>\<open>calculateSemanticSimilarity\<close> does not filter stop words.
\<close>

theorem stop_word_query_matches:
  "set (split_ws ''what is the'') \<subseteq> set stopWords \<and>
   findBestMatch ''what is the'' [return_policy] \<noteq> None"
  using stop_word_query stop_word_match by simp

lemma empty_query_NaN: "finalScore [] it = NaN"
  by (simp add: finalScore_def calculateSemanticSimilarity_def semantic_words_def toLowerCase_def
      split_ws_def boosts_def js_div_def Math_max3_def Let_def)

text \<open>
  C9, amended: whenever the Matcher returns a result its confidence is a number greater
  than 0; it returns no result for every query and list of entries in which no entry has
  a final score greater than 0, and in particular for the empty query.
\<close>

theorem findBestMatch_confidence_positive:
  "(findBestMatch query qaItems = Some m \<longrightarrow> (\<exists>c. confidence m = Num c \<and> 0 < c)) \<and>
   ((\<forall>it \<in> set qaItems. \<not> js_gt (finalScore query it) (Num 0)) \<longrightarrow>
      findBestMatch query qaItems = None) \<and>
   findBestMatch [] qaItems = None"
proof -
  have none: "findBestMatch q items = None"
    if "\<forall>it \<in> set items. \<not> js_gt (finalScore q it) (Num 0)" for q items
  proof (cases "findBestMatch q items")
    case None
    then show ?thesis .
  next
    case (Some r)
    from findBestMatch_Some [OF this] obtain h it
      where "0 < h" "it \<in> set items" "finalScore q it = Num h" by blast
    with that show ?thesis by auto
  qed
  have "findBestMatch [] qaItems = None"
    by (rule none) (simp add: empty_query_NaN)
  moreover have "findBestMatch query qaItems = Some m \<longrightarrow> (\<exists>c. confidence m = Num c \<and> 0 < c)"
    using findBestMatch_Some [of query qaItems m] by blast
  ultimately show ?thesis using none by blast
qed

lemma hello_score: "finalScore ''hello'' return_policy = Num 0"
  by code_simp

theorem findBestMatch_confidence_positive_witness:
  "findBestMatch ''What is your return policy?'' [return_policy] =
     Some \<lparr>item = return_policy\<lparr>view_count := Some 0\<rparr>, confidence = Num (8 / 10)\<rparr> \<and>
   (\<exists>c. Num (8 / 10) = Num c \<and> 0 < c) \<and>
   \<not> js_gt (finalScore ''hello'' return_policy) (Num 0) \<and>
   findBestMatch ''hello'' [return_policy] = None"
proof -
  have h: "\<forall>it \<in> set [return_policy]. \<not> js_gt (finalScore ''hello'' it) (Num 0)"
    by (simp add: hello_score)
  from findBestMatch_confidence_positive [of "''hello''" "[return_policy]" _] h
  have "findBestMatch ''hello'' [return_policy] = None" by blast
  moreover from findBestMatch_confidence_positive [of "''What is your return policy?''"
      "[return_policy]" "\<lparr>item = return_policy\<lparr>view_count := Some 0\<rparr>, confidence = Num (8 / 10)\<rparr>"]
    return_policy_match
  have "\<exists>c. Num (8 / 10) = Num c \<and> 0 < c" by simp
  ultimately show ?thesis using h return_policy_match by simp
qed

subsection \<open>Suggestions\<close>


lemma suggestion_loop_length:
  "length suggestions \<le> 3 \<Longrightarrow> length (suggestion_loop queryWords qaItems suggestions) \<le> 3"
  by (induction qaItems arbitrary: suggestions) (auto simp add: Let_def)

lemma padding_length:
  assumes "length suggestions < 3"
  shows "length (padding_loop generalQuestions suggestions) = 3"
proof -
  consider "suggestions = []" | a where "suggestions = [a]" | a b where "suggestions = [a, b]"
    using assms
    by (cases suggestions; cases "tl suggestions"; cases "tl (tl suggestions)") auto
  then show ?thesis
  proof cases
    case 1
    then show ?thesis by (simp add: generalQuestions_def)
  next
    case 2
    then show ?thesis by (auto simp add: generalQuestions_def)
  next
    case 3
    then show ?thesis by (auto simp add: generalQuestions_def)
  qed
qed

text \<open>
  C10: for every query and every list of entries, \<^verbatim>\<open>generateSuggestedQuestions\<close> returns
  exactly three suggestions.
\<close>

theorem suggestions_exactly_three:
  "length (generateSuggestedQuestions query qaItems) = 3"
proof -
  let ?s = "suggestion_loop (split_space (toLowerCase query)) qaItems []"
  have le: "length ?s \<le> 3" by (rule suggestion_loop_length) simp
  show ?thesis
  proof (cases "length ?s < 3")
    case True
    then show ?thesis by (simp add: generateSuggestedQuestions_def Let_def padding_length)
  next
    case False
    with le have "length ?s = 3" by simp
    then show ?thesis by (simp add: generateSuggestedQuestions_def Let_def)
  qed
qed


text \<open>
  C7 fails on two entries with the same question text: the loop over the entries pushes
  the question of every entry that shares a word with the query and, unlike the padding
  loop, does not look whether the suggestions already contain it.
\<close>

theorem duplicate_suggestions:
  "generateSuggestedQuestions ''track'' [track_it, track_it_again] =
     [''Where can I track my scooter?'', ''Where can I track my scooter?'',
      ''How do I track my order?''] \<and>
   \<not> distinct (generateSuggestedQuestions ''track'' [track_it, track_it_again])"
  by code_simp

subsection \<open>The Router\<close>

lemma detectIntent_tried:
  "detectIntent regex_test query patterns =
     (if list_all (\<lambda>p. regex_test (pattern p) ''i'' query \<noteq> None)
           (patterns_tried regex_test query patterns)
      then Inr (case find (\<lambda>p. regex_test (pattern p) ''i'' query = Some True) patterns of
                  None \<Rightarrow> ''general_inquiry''
                | Some p \<Rightarrow> intent p)
      else Inl SyntaxError)"
  by (induction patterns) (auto simp add: patterns_tried_def split: option.splits)

lemma callGeminiAPI_throws:
  "try_block_throws outcome \<Longrightarrow>
     callGeminiAPI outcome =
       \<lparr>gemini_answer = JString technical_difficulties, gemini_confidence = Num (1 / 10)\<rparr>"
  by (auto simp add: try_block_throws_def callGeminiAPI_def candidate_text_def Let_def
      split: fetch_result.splits option.splits)

lemma callGeminiAPI_answers:
  "candidate_text data = Some text \<Longrightarrow>
     callGeminiAPI (Response status (Some data)) =
       \<lparr>gemini_answer =
          (case text of
             None \<Rightarrow> JString unable_to_process
           | Some t \<Rightarrow> if truthy t then t else JString unable_to_process),
        gemini_confidence = Num (8 / 10)\<rparr>"
  by (simp add: callGeminiAPI_def Let_def)

lemma candidate_text_cases:
  "try_block_throws outcome \<or>
   (\<exists>status data text. outcome = Response status (Some data) \<and> candidate_text data = Some text)"
  by (cases outcome)
    (auto simp add: try_block_throws_def candidate_text_def split: option.splits json.splits)

lemma candidate_text_payload:
  "candidate_text (gemini_payload text) = Some (Some (JString text))"
  by (simp add: candidate_text_def gemini_payload_def)

lemma handle_request_faq:
  assumes "findBestMatch query (select_qa_items rows) = Some m"
      and "js_gt (confidence m) (Num threshold)"
  shows "handle_request threshold regex_test outcome query rows intentPatterns =
     (update_view_count rows (qa_id (item m)) (map_option (\<lambda>v. v + 1) (view_count (item m))),
      Inr \<lparr>content = JString (answer (item m)),
           suggested_questions = generateSuggestedQuestions query (select_qa_items rows),
           confidence_score = confidence m,
           matched_intent = [],
           related_qa_items = findRelatedItems (item m) (select_qa_items rows),
           response_source = ''qa_database''\<rparr>)"
  using assms by (simp add: handle_request_def Let_def)

lemma handle_request_fallback:
  assumes "\<not> faq_path threshold query rows"
  shows "handle_request threshold regex_test outcome query rows intentPatterns =
     (case detectIntent regex_test query intentPatterns of
        Inl e \<Rightarrow> (rows, Inl e)
      | Inr matchedIntent \<Rightarrow>
          (rows,
           Inr \<lparr>content = gemini_answer (callGeminiAPI outcome),
                suggested_questions = generateSuggestedQuestions query (select_qa_items rows),
                confidence_score = gemini_confidence (callGeminiAPI outcome),
                matched_intent = matchedIntent,
                related_qa_items = [],
                response_source = ''ai''\<rparr>))"
  using assms by (auto simp add: handle_request_def faq_path_def Let_def split: option.splits)

lemma faq_path_iff:
  "faq_path threshold query rows =
     (\<exists>m. findBestMatch query (select_qa_items rows) = Some m \<and>
          js_gt (confidence m) (Num threshold))"
  by (auto simp add: faq_path_def split: option.splits)

lemma hello_no_match:
  "findBestMatch ''HELLO there'' (select_qa_items [return_policy_row]) = None"
  by code_simp

lemma hello_matches: "literal_test ''hello'' ''i'' ''HELLO there'' = Some True"
  by code_simp

lemma broken_first_fails:
  "snd (serve literal_test NetworkError ''HELLO there'' [return_policy_row]
          patterns_broken_first) = Inl SyntaxError"
  by code_simp

text \<open>
  C6, as stated, fails when a pattern that is no regular expression is tried before a
  pattern matches. The query \<^verbatim>\<open>HELLO there\<close> has no match among the entries and the
  pattern \<^verbatim>\<open>hello\<close> matches it, ignoring case; but the list starts with the pattern
  \<^verbatim>\<open>*\<close>, for which \<^verbatim>\<open>new RegExp\<close> throws, and the request ends with the error instead
  of a fallback message with the intent \<^verbatim>\<open>greeting\<close>.
\<close>

theorem invalid_pattern_request_fails:
  "findBestMatch ''HELLO there'' (select_qa_items [return_policy_row]) = None \<and>
   literal_test ''hello'' ''i'' ''HELLO there'' = Some True \<and>
   snd (serve literal_test NetworkError ''HELLO there'' [return_policy_row]
          patterns_broken_first) = Inl SyntaxError"
  using hello_no_match hello_matches broken_first_fails by simp

text \<open>
  C6, amended: for every query, table, threshold and list of intent patterns, the handler
  answers with a message of source \<^verbatim>\<open>qa_database\<close> exactly when the Matcher returns a
  match whose confidence strictly exceeds the threshold, and then the text is the answer
  of the matched entry and the confidence that of the match. Otherwise the patterns are
  tried in order with the flag \<^verbatim>\<open>i\<close> (ignore case): if every pattern tried before the
  first one that matches (all of them when none matches) is a regular expression, the
  handler answers with a message of source \<^verbatim>\<open>ai\<close> whose matched intent is the intent
  of the first pattern that matches the query, or \<^verbatim>\<open>general_inquiry\<close> when none
  matches; if not, the request ends with the error.
\<close>

theorem router_decision:
  "((\<exists>msg. snd (handle_request threshold regex_test outcome query rows intentPatterns) = Inr msg \<and>
          response_source msg = ''qa_database'') =
      (\<exists>m. findBestMatch query (select_qa_items rows) = Some m \<and>
           js_gt (confidence m) (Num threshold))) \<and>
   (\<forall>m. findBestMatch query (select_qa_items rows) = Some m \<and>
        js_gt (confidence m) (Num threshold) \<longrightarrow>
        (\<exists>msg. snd (handle_request threshold regex_test outcome query rows intentPatterns) = Inr msg \<and>
              response_source msg = ''qa_database'' \<and>
              content msg = JString (answer (item m)) \<and>
              confidence_score msg = confidence m)) \<and>
   (\<not> (\<exists>m. findBestMatch query (select_qa_items rows) = Some m \<and>
           js_gt (confidence m) (Num threshold)) \<longrightarrow>
      (if list_all (\<lambda>p. regex_test (pattern p) ''i'' query \<noteq> None)
            (patterns_tried regex_test query intentPatterns)
       then \<exists>msg. snd (handle_request threshold regex_test outcome query rows intentPatterns) =
                    Inr msg \<and>
                  response_source msg = ''ai'' \<and>
                  matched_intent msg =
                    (case find (\<lambda>p. regex_test (pattern p) ''i'' query = Some True)
                            intentPatterns of
                       None \<Rightarrow> ''general_inquiry''
                     | Some p \<Rightarrow> intent p)
       else snd (handle_request threshold regex_test outcome query rows intentPatterns) =
              Inl SyntaxError))"
proof (cases "faq_path threshold query rows")
  case True
  then obtain m where m: "findBestMatch query (select_qa_items rows) = Some m"
      "js_gt (confidence m) (Num threshold)"
    by (auto simp add: faq_path_iff)
  show ?thesis
    using m by (simp add: handle_request_faq [OF m])
next
  case False
  then have no: "\<not> (\<exists>m. findBestMatch query (select_qa_items rows) = Some m \<and>
             js_gt (confidence m) (Num threshold))"
    by (simp add: faq_path_iff)
  show ?thesis
    using no
    by (auto simp add: handle_request_fallback [OF False]
        detectIntent_tried [of regex_test query intentPatterns])
qed

lemma return_policy_row_match:
  "findBestMatch ''What is your return policy?'' (select_qa_items [return_policy_row]) =
     Some \<lparr>item = return_policy\<lparr>view_count := Some 0\<rparr>, confidence = Num (8 / 10)\<rparr>"
  by code_simp

lemma broken_last_tried:
  "list_all (\<lambda>p. literal_test (pattern p) ''i'' ''HELLO there'' \<noteq> None)
     (patterns_tried literal_test ''HELLO there'' patterns_broken_last)"
  by code_simp

lemma broken_last_intent:
  "(case find (\<lambda>p. literal_test (pattern p) ''i'' ''HELLO there'' = Some True)
           patterns_broken_last of
      None \<Rightarrow> ''general_inquiry''
    | Some p \<Rightarrow> intent p) = ''greeting''"
  by code_simp

lemma broken_first_tried:
  "\<not> list_all (\<lambda>p. literal_test (pattern p) ''i'' ''HELLO there'' \<noteq> None)
       (patterns_tried literal_test ''HELLO there'' patterns_broken_first)"
  by code_simp

lemma morning_no_match:
  "findBestMatch ''Good morning'' (select_qa_items [return_policy_row]) = None"
  by code_simp

lemma morning_tried:
  "list_all (\<lambda>p. literal_test (pattern p) ''i'' ''Good morning'' \<noteq> None)
     (patterns_tried literal_test ''Good morning'' sample_patterns)"
  by code_simp

lemma morning_intent:
  "(case find (\<lambda>p. literal_test (pattern p) ''i'' ''Good morning'' = Some True)
           sample_patterns of
      None \<Rightarrow> ''general_inquiry''
    | Some p \<Rightarrow> intent p) = ''general_inquiry''"
  by code_simp

theorem router_decision_witness:
  "(\<exists>msg. snd (handle_request (3 / 10) literal_test NetworkError ''What is your return policy?''
                 [return_policy_row] sample_patterns) = Inr msg \<and>
          response_source msg = ''qa_database'' \<and> content msg = JString ''Thirty days.'' \<and>
          confidence_score msg = Num (8 / 10)) \<and>
   findBestMatch ''HELLO there'' (select_qa_items [return_policy_row]) = None \<and>
   list_all (\<lambda>p. literal_test (pattern p) ''i'' ''HELLO there'' \<noteq> None)
     (patterns_tried literal_test ''HELLO there'' patterns_broken_last) \<and>
   (\<exists>msg. snd (handle_request (3 / 10) literal_test NetworkError ''HELLO there''
                 [return_policy_row] patterns_broken_last) = Inr msg \<and>
          response_source msg = ''ai'' \<and> matched_intent msg = ''greeting'') \<and>
   \<not> list_all (\<lambda>p. literal_test (pattern p) ''i'' ''HELLO there'' \<noteq> None)
       (patterns_tried literal_test ''HELLO there'' patterns_broken_first) \<and>
   snd (handle_request (3 / 10) literal_test NetworkError ''HELLO there''
          [return_policy_row] patterns_broken_first) = Inl SyntaxError \<and>
   (\<exists>msg. snd (handle_request (3 / 10) literal_test NetworkError ''Good morning''
                 [return_policy_row] sample_patterns) = Inr msg \<and>
          response_source msg = ''ai'' \<and> matched_intent msg = ''general_inquiry'')"
proof -
  from router_decision [where regex_test = literal_test and intentPatterns = sample_patterns
      and query = "''What is your return policy?''" and threshold = "3 / 10"
      and outcome = NetworkError and rows = "[return_policy_row]"]
  have 1: "\<exists>msg. snd (handle_request (3 / 10) literal_test NetworkError ''What is your return policy?''
                 [return_policy_row] sample_patterns) = Inr msg \<and>
          response_source msg = ''qa_database'' \<and> content msg = JString ''Thirty days.'' \<and>
          confidence_score msg = Num (8 / 10)"
    by (simp add: return_policy_row_match return_policy_def)
  have n: "\<not> (\<exists>m. findBestMatch ''HELLO there'' (select_qa_items [return_policy_row]) = Some m \<and>
          js_gt (confidence m) (Num (3 / 10)))"
    by (simp add: hello_no_match)
  have n': "\<not> (\<exists>m. findBestMatch ''Good morning'' (select_qa_items [return_policy_row]) = Some m \<and>
          js_gt (confidence m) (Num (3 / 10)))"
    by (simp add: morning_no_match)
  from router_decision [where regex_test = literal_test and intentPatterns = patterns_broken_last
      and query = "''HELLO there''" and threshold = "3 / 10" and outcome = NetworkError
      and rows = "[return_policy_row]", THEN conjunct2, THEN conjunct2, THEN mp, OF n]
  have 2: "\<exists>msg. snd (handle_request (3 / 10) literal_test NetworkError ''HELLO there''
                 [return_policy_row] patterns_broken_last) = Inr msg \<and>
          response_source msg = ''ai'' \<and> matched_intent msg = ''greeting''"
    using broken_last_tried by (simp only: if_True broken_last_intent)
  from router_decision [where regex_test = literal_test and intentPatterns = patterns_broken_first
      and query = "''HELLO there''" and threshold = "3 / 10" and outcome = NetworkError
      and rows = "[return_policy_row]", THEN conjunct2, THEN conjunct2, THEN mp, OF n]
  have 3: "snd (handle_request (3 / 10) literal_test NetworkError ''HELLO there''
          [return_policy_row] patterns_broken_first) = Inl SyntaxError"
    using broken_first_tried by (simp only: if_False)
  from router_decision [where regex_test = literal_test and intentPatterns = sample_patterns
      and query = "''Good morning''" and threshold = "3 / 10" and outcome = NetworkError
      and rows = "[return_policy_row]", THEN conjunct2, THEN conjunct2, THEN mp, OF n']
  have 4: "\<exists>msg. snd (handle_request (3 / 10) literal_test NetworkError ''Good morning''
                 [return_policy_row] sample_patterns) = Inr msg \<and>
          response_source msg = ''ai'' \<and> matched_intent msg = ''general_inquiry''"
    using morning_tried by (simp only: if_True morning_intent)
  from 1 2 3 4 hello_no_match broken_last_tried broken_first_tried
  show ?thesis by (intro conjI)
qed

text \<open>
  C2, amended: on the fallback path, when every intent pattern tried is a regular
  expression, the handler always answers with a message of source \<^verbatim>\<open>ai\<close>, and one of
  two cases holds. When the call throws (the request fails, the body is not JSON, or it
  is the JSON value null) the text is the fixed message about technical difficulties and
  the confidence 0.1. When a body arrives that parses, whatever the status of the
  response, the confidence is 0.8 and the text is the value of
  \<^verbatim>\<open>data.candidates?.[0]?.content?.parts?.[0]?.text\<close> when it is truthy (so the text of
  the first candidate, when the body has one that is not empty), and else the fixed
  message about being unable to process the request.
\<close>

theorem fallback_failure_reply:
  assumes "\<not> (\<exists>m. findBestMatch query (select_qa_items rows) = Some m \<and>
             js_gt (confidence m) (Num threshold))"
      and "list_all (\<lambda>p. regex_test (pattern p) ''i'' query \<noteq> None)
             (patterns_tried regex_test query intentPatterns)"
  shows "\<exists>msg. snd (handle_request threshold regex_test outcome query rows intentPatterns) = Inr msg \<and>
     response_source msg = ''ai'' \<and>
     (try_block_throws outcome \<or>
      (\<exists>status data text. outcome = Response status (Some data) \<and>
          candidate_text data = Some text)) \<and>
     (try_block_throws outcome \<longrightarrow>
        content msg = JString technical_difficulties \<and> confidence_score msg = Num (1 / 10)) \<and>
     (\<forall>status data text. outcome = Response status (Some data) \<and> candidate_text data = Some text \<longrightarrow>
        confidence_score msg = Num (8 / 10) \<and>
        content msg =
          (case text of
             None \<Rightarrow> JString unable_to_process
           | Some t \<Rightarrow> if truthy t then t else JString unable_to_process)) \<and>
     (\<forall>status text. outcome = Response status (Some (gemini_payload text)) \<and> text \<noteq> [] \<longrightarrow>
        confidence_score msg = Num (8 / 10) \<and> content msg = JString text)"
proof -
  from assms(1) have no: "\<not> faq_path threshold query rows"
    by (simp add: faq_path_iff)
  let ?msg = "\<lparr>content = gemini_answer (callGeminiAPI outcome),
                suggested_questions = generateSuggestedQuestions query (select_qa_items rows),
                confidence_score = gemini_confidence (callGeminiAPI outcome),
                matched_intent =
                  (case find (\<lambda>p. regex_test (pattern p) ''i'' query = Some True) intentPatterns of
                     None \<Rightarrow> ''general_inquiry''
                   | Some p \<Rightarrow> intent p),
                related_qa_items = [],
                response_source = ''ai''\<rparr>"
  have r: "snd (handle_request threshold regex_test outcome query rows intentPatterns) = Inr ?msg"
    using assms(2)
    by (simp add: handle_request_fallback [OF no]
        detectIntent_tried [of regex_test query intentPatterns])
  have t: "try_block_throws outcome \<longrightarrow>
        content ?msg = JString technical_difficulties \<and> confidence_score ?msg = Num (1 / 10)"
    using callGeminiAPI_throws [of outcome] by simp
  have a: "\<forall>status data text. outcome = Response status (Some data) \<and> candidate_text data = Some text \<longrightarrow>
        confidence_score ?msg = Num (8 / 10) \<and>
        content ?msg =
          (case text of
             None \<Rightarrow> JString unable_to_process
           | Some t \<Rightarrow> if truthy t then t else JString unable_to_process)"
    by (auto simp add: callGeminiAPI_answers)
  have p: "\<forall>status text. outcome = Response status (Some (gemini_payload text)) \<and> text \<noteq> [] \<longrightarrow>
        confidence_score ?msg = Num (8 / 10) \<and> content ?msg = JString text"
    by (auto simp add: callGeminiAPI_answers [OF candidate_text_payload])
  from r t a p candidate_text_cases [of outcome] show ?thesis
    by (intro exI [of _ ?msg] conjI) simp_all
qed

lemma error_body_text: "candidate_text error_body = Some None"
  by code_simp

theorem fallback_failure_reply_witness:
  "\<not> (\<exists>m. findBestMatch ''HELLO there'' (select_qa_items [return_policy_row]) = Some m \<and>
          js_gt (confidence m) (Num (3 / 10))) \<and>
   list_all (\<lambda>p. literal_test (pattern p) ''i'' ''HELLO there'' \<noteq> None)
     (patterns_tried literal_test ''HELLO there'' patterns_broken_last) \<and>
   try_block_throws NetworkError \<and>
   (\<exists>msg. snd (handle_request (3 / 10) literal_test NetworkError ''HELLO there''
                 [return_policy_row] patterns_broken_last) = Inr msg \<and>
          response_source msg = ''ai'' \<and>
          content msg = JString technical_difficulties \<and> confidence_score msg = Num (1 / 10)) \<and>
   candidate_text error_body = Some None \<and>
   (\<exists>msg. snd (handle_request (3 / 10) literal_test (Response 500 (Some error_body)) ''HELLO there''
                 [return_policy_row] patterns_broken_last) = Inr msg \<and>
          response_source msg = ''ai'' \<and>
          content msg = JString unable_to_process \<and> confidence_score msg = Num (8 / 10)) \<and>
   (\<exists>msg. snd (handle_request (3 / 10) literal_test
                 (Response 200 (Some (gemini_payload ''Up to 25 km/h.''))) ''HELLO there''
                 [return_policy_row] patterns_broken_last) = Inr msg \<and>
          response_source msg = ''ai'' \<and>
          content msg = JString ''Up to 25 km/h.'' \<and> confidence_score msg = Num (8 / 10))"
proof -
  have n: "\<not> (\<exists>m. findBestMatch ''HELLO there'' (select_qa_items [return_policy_row]) = Some m \<and>
          js_gt (confidence m) (Num (3 / 10)))"
    by (simp add: hello_no_match)
  note v = broken_last_tried
  have t: "try_block_throws NetworkError" by (simp add: try_block_throws_def)
  from fallback_failure_reply [where regex_test = literal_test
      and intentPatterns = patterns_broken_last
      and query = "''HELLO there''" and threshold = "3 / 10" and outcome = NetworkError
      and rows = "[return_policy_row]", OF n v] t
  have 1: "\<exists>msg. snd (handle_request (3 / 10) literal_test NetworkError ''HELLO there''
                 [return_policy_row] patterns_broken_last) = Inr msg \<and>
          response_source msg = ''ai'' \<and>
          content msg = JString technical_difficulties \<and> confidence_score msg = Num (1 / 10)"
    by blast
  from fallback_failure_reply [where regex_test = literal_test
      and intentPatterns = patterns_broken_last
      and query = "''HELLO there''" and threshold = "3 / 10"
      and outcome = "Response 500 (Some error_body)" and rows = "[return_policy_row]", OF n v]
    error_body_text
  have 2: "\<exists>msg. snd (handle_request (3 / 10) literal_test (Response 500 (Some error_body)) ''HELLO there''
                 [return_policy_row] patterns_broken_last) = Inr msg \<and>
          response_source msg = ''ai'' \<and>
          content msg = JString unable_to_process \<and> confidence_score msg = Num (8 / 10)"
    by fastforce
  from fallback_failure_reply [where regex_test = literal_test
      and intentPatterns = patterns_broken_last
      and query = "''HELLO there''" and threshold = "3 / 10"
      and outcome = "Response 200 (Some (gemini_payload ''Up to 25 km/h.''))"
      and rows = "[return_policy_row]", OF n v]
  have 3: "\<exists>msg. snd (handle_request (3 / 10) literal_test
                 (Response 200 (Some (gemini_payload ''Up to 25 km/h.''))) ''HELLO there''
                 [return_policy_row] patterns_broken_last) = Inr msg \<and>
          response_source msg = ''ai'' \<and>
          content msg = JString ''Up to 25 km/h.'' \<and> confidence_score msg = Num (8 / 10)"
    by fastforce
  from n v t 1 2 3 error_body_text show ?thesis by (intro conjI)
qed

text \<open>
  C2, as stated, fails on a response with status 500 and a JSON error body: nothing is
  thrown, the text is the other fixed message and the confidence is 0.8.
\<close>

theorem non_2xx_reply:
  "snd (serve literal_test (Response 500 (Some error_body)) ''hello there''
         [return_policy_row] sample_patterns) =
     Inr \<lparr>content = JString unable_to_process,
          suggested_questions = generalQuestions,
          confidence_score = Num (8 / 10),
          matched_intent = ''greeting'',
          related_qa_items = [],
          response_source = ''ai''\<rparr> \<and>
   unable_to_process \<noteq> technical_difficulties \<and> Num (8 / 10) \<noteq> Num (1 / 10)"
  by code_simp

lemma selected_view_count:
  "it \<in> set (select_qa_items rows) \<Longrightarrow> view_count it = None"
  by (auto simp add: select_qa_items_def)

lemma faq_request_view_count:
  assumes "findBestMatch query (select_qa_items rows) = Some m"
      and "js_gt (confidence m) (Num threshold)"
  shows "fst (handle_request threshold regex_test outcome query rows intentPatterns) =
     update_view_count rows (qa_id (item m)) (Some 1)"
proof -
  from findBestMatch_Some [OF assms(1)] obtain it
    where it: "it \<in> set (select_qa_items rows)"
      "item m = it\<lparr>view_count := Some (view_count_or_zero it)\<rparr>" by blast
  from selected_view_count [OF it(1)] it(2) have "view_count (item m) = Some 0"
    by (simp add: view_count_or_zero_def)
  then show ?thesis by (simp add: handle_request_faq [OF assms])
qed

lemma first_request:
  "serve literal_test NetworkError ''What is your return policy?'' [return_policy_row] [] =
     ([return_policy_row\<lparr>row_view_count := Some 1\<rparr>],
      Inr \<lparr>content = JString ''Thirty days.'',
           suggested_questions = [''What is the return policy?'', ''How do I track my order?'',
                                  ''What is the warranty policy?''],
           confidence_score = Num (8 / 10),
           matched_intent = [],
           related_qa_items = [],
           response_source = ''qa_database''\<rparr>)"
  by code_simp

lemma second_request:
  "serve literal_test NetworkError ''What is your return policy?''
     [return_policy_row\<lparr>row_view_count := Some 1\<rparr>] [] =
     ([return_policy_row\<lparr>row_view_count := Some 1\<rparr>],
      Inr \<lparr>content = JString ''Thirty days.'',
           suggested_questions = [''What is the return policy?'', ''How do I track my order?'',
                                  ''What is the warranty policy?''],
           confidence_score = Num (8 / 10),
           matched_intent = [],
           related_qa_items = [],
           response_source = ''qa_database''\<rparr>)"
  by code_simp

text \<open>
  C1 fails: the entry has 5 views; a first request that selects it leaves the counter at
  1, and a second one leaves it at 1 again. The handler does not select
  \<^verbatim>\<open>view_count\<close>, \<^verbatim>\<open>findBestMatch\<close> reads the absent property as 0, and the update
  writes \<open>0 + 1\<close>.
\<close>

theorem view_count_after_two_requests:
  "row_view_count return_policy_row = Some 5 \<and>
   map (\<lambda>r. (row_id r, row_view_count r))
     (fst (serve literal_test NetworkError ''What is your return policy?''
             [return_policy_row] [])) = [(''q1'', Some 1)] \<and>
   map (\<lambda>r. (row_id r, row_view_count r))
     (fst (serve literal_test NetworkError ''What is your return policy?''
        (fst (serve literal_test NetworkError ''What is your return policy?''
                [return_policy_row] [])) [])) = [(''q1'', Some 1)]"
  by (simp add: first_request second_request) (simp add: return_policy_row_def)

end
